theory Spec2Isabelle
  imports Main "HOL-Library.Word" "HOL-Library.Sublist"
begin

unbundle bit_operations_syntax

section \<open>Paths: Go's \<open>path/filepath\<close> on a Unix host\<close>

text \<open>
  The handlers build every backing path with \<open>filepath.Join(s.d.stateDir, id)\<close>.
  \<open>Join\<close> skips leading empty elements, glues the rest with a slash and returns
  \<open>Clean\<close> of the result. \<open>Clean\<close> works element by element: empty elements and
  \<open>.\<close> are dropped, \<open>..\<close> removes the element before it (a real one), is dropped
  right after the root, and is kept at the start of a relative path; the empty result is
  \<open>.\<close>. Symbolic links are not modelled.
\<close>

fun split_slash :: "string \<Rightarrow> string list" where
  "split_slash [] = [[]]"
| "split_slash (c # cs) =
     (if c = CHR ''/'' then [] # split_slash cs
      else (case split_slash cs of [] \<Rightarrow> [[c]] | w # ws \<Rightarrow> (c # w) # ws))"

fun clean_elems :: "bool \<Rightarrow> string list \<Rightarrow> string list \<Rightarrow> string list" where
  "clean_elems rooted out [] = out"
| "clean_elems rooted out (e # es) =
     (if e = [] \<or> e = ''.'' then clean_elems rooted out es
      else if e = ''..'' then
        (if out \<noteq> [] \<and> last out \<noteq> ''..'' then clean_elems rooted (butlast out) es
         else if rooted then clean_elems rooted out es
         else clean_elems rooted (out @ [''..'']) es)
      else clean_elems rooted (out @ [e]) es)"

fun join_slash :: "string list \<Rightarrow> string" where
  "join_slash [] = []"
| "join_slash [e] = e"
| "join_slash (e # es) = e @ ''/'' @ join_slash es"

definition is_rooted :: "string \<Rightarrow> bool" where
  "is_rooted p = (case p of [] \<Rightarrow> False | c # _ \<Rightarrow> c = CHR ''/'')"

definition path_elems :: "string \<Rightarrow> string list" where
  "path_elems p = clean_elems (is_rooted p) [] (split_slash p)"

definition render :: "bool \<Rightarrow> string list \<Rightarrow> string" where
  "render rooted out =
     (let s = (if rooted then ''/'' else []) @ join_slash out
      in if s = [] then ''.'' else s)"

definition filepath_Clean :: "string \<Rightarrow> string" where
  "filepath_Clean p = render (is_rooted p) (path_elems p)"

definition filepath_Join :: "string \<Rightarrow> string \<Rightarrow> string" where
  "filepath_Join a b =
     (if a \<noteq> [] then filepath_Clean (a @ ''/'' @ b)
      else if b \<noteq> [] then filepath_Clean b
      else [])"

text \<open>
  The directories on the way to a path, outermost first: the root (or \<open>.\<close> for a
  relative path), then one more element at a time, down to the path itself.
\<close>

definition ancestors :: "string \<Rightarrow> string list" where
  "ancestors p = map (render (is_rooted p)) (prefixes (path_elems p))"

text \<open>\<open>within p q\<close>: the cleaned path \<open>q\<close> is \<open>p\<close> or lies below it.\<close>

definition within :: "string \<Rightarrow> string \<Rightarrow> bool" where
  "within p q = (q = p \<or> prefix (if p = ''/'' then p else p @ ''/'') q)"


section \<open>The host: directories and the mount table\<close>

text \<open>
  The handlers act on the host only through \<open>os.MkdirAll\<close>, \<open>os.RemoveAll\<close>,
  \<open>syscall.Mount\<close> and \<open>syscall.Unmount\<close>. The host is the set of directories of the
  underlying tree (by cleaned path; the root and the working directory are always there),
  the mount table (newest entry first), and the failures the host may answer with for
  reasons the model does not track (permissions, a full disk, a file in use, a name the
  host cannot take such as one with a NUL byte or with a component that is too long): one
  fault table per operation, asked with the cleaned path of the call.
\<close>

datatype errno = EPERM | ENOENT | EIO | EACCES | EBUSY | EEXIST | ENOTDIR | EINVAL
  | ENOSPC | EROFS | ENODEV | ENAMETOOLONG

text \<open>
  A bind mount shows a directory of the underlying tree (\<open>m_source\<close>) at the path it is
  attached to (\<open>m_target\<close>). Directories are told apart by their place in the underlying
  tree, and relative paths are read from a working directory that no mount covers.
\<close>

record mount_entry =
  m_source :: string
  m_target :: string
  m_flags :: "64 word"

record host =
  dirs :: "string set"
  mounts :: "mount_entry list"
  mkdir_fault :: "string \<Rightarrow> errno option"
  remove_fault :: "string \<Rightarrow> errno option"
  mount_fault :: "string \<Rightarrow> string \<Rightarrow> errno option"
  umount_fault :: "string \<Rightarrow> errno option"

text \<open>
  Looking a cleaned path up: the newest mount attached at the path or above it decides
  (a later mount hides what earlier ones show at or below its target), and the path then
  names the directory at the same place below that mount's source. \<open>rebase t r q\<close> moves
  \<open>q\<close>, which is \<open>t\<close> or lies below it, to the same place below \<open>r\<close>. A path is a mount
  point when the mount that decides it is attached at the path itself.
\<close>

definition rebase :: "string \<Rightarrow> string \<Rightarrow> string \<Rightarrow> string" where
  "rebase t r q =
     (if q = t then r
      else let rest = drop (length (if t = ''/'' then t else t @ ''/'')) q
           in if r = ''/'' then r @ rest else if r = ''.'' then rest else r @ ''/'' @ rest)"

definition covering :: "host \<Rightarrow> string \<Rightarrow> mount_entry option" where
  "covering h q = find (\<lambda>m. within (m_target m) q) (mounts h)"

definition resolve :: "host \<Rightarrow> string \<Rightarrow> string" where
  "resolve h q =
     (case covering h q of None \<Rightarrow> q | Some m \<Rightarrow> rebase (m_target m) (m_source m) q)"

definition is_mount_point :: "host \<Rightarrow> string \<Rightarrow> bool" where
  "is_mount_point h q = (case covering h q of None \<Rightarrow> False | Some m \<Rightarrow> m_target m = q)"

text \<open>
  A path names an existing directory when its cleaned form is the root, the working
  directory or a mount point, or is looked up to a directory of the underlying tree.
\<close>

definition exists_dir :: "host \<Rightarrow> string \<Rightarrow> bool" where
  "exists_dir h path =
     (path \<noteq> [] \<and>
      (let q = filepath_Clean path
       in q = ''/'' \<or> q = ''.'' \<or> is_mount_point h q \<or> resolve h q \<in> dirs h))"

definition MS_RDONLY :: "64 word" where
  "MS_RDONLY = 1"

definition MS_BIND :: "64 word" where
  "MS_BIND = 4096"

text \<open>
  \<open>os.MkdirAll(path, perm)\<close>: "creates a directory named path, along with any necessary
  parents, and returns nil, or else returns an error. If path is already a directory,
  MkdirAll does nothing and returns nil." The directories are created where the lookup
  leads. Permission bits are not tracked; a failed call leaves the host as it was.
\<close>

definition os_MkdirAll :: "string \<Rightarrow> host \<Rightarrow> errno option \<times> host" where
  "os_MkdirAll path h =
     (let p = filepath_Clean path in
      if path = [] then (Some ENOENT, h)
      else if exists_dir h path then (None, h)
      else (case mkdir_fault h p of
              Some e \<Rightarrow> (Some e, h)
            | None \<Rightarrow>
                (None, h\<lparr>dirs := insert (resolve h p)
                                    (dirs h \<union> set (map (resolve h) (ancestors p)))\<rparr>)))"

text \<open>
  \<open>os.RemoveAll(path)\<close>: "removes path and any children it contains. It removes
  everything it can but returns the first error it encounters. If the path does not
  exist, RemoveAll returns nil (no error)." As Go 1.21 has it: the empty path is nil; a
  path that is \<open>.\<close> or ends in \<open>/.\<close> is \<open>EINVAL\<close>; then the removal is tried, and of the
  errors the host may answer with only \<open>ENOENT\<close> is taken for success, also when the
  path does not exist. A mount point, and the root, cannot be removed (\<open>EBUSY\<close>), nor can
  the directories on the way to one; everything else at or below the path is removed,
  through the mounts that show it.

  \<open>names_of h r\<close> are the paths under which the directory \<open>r\<close> of the underlying tree is
  seen; \<open>removable h p r\<close> holds when one of them is at or below \<open>p\<close> with no mount point
  and no root at or below it.
\<close>

definition mount_points_within :: "host \<Rightarrow> string \<Rightarrow> string list" where
  "mount_points_within h p =
     (if p = ''/'' then [p] else [])
     @ filter (\<lambda>t. within p t \<and> is_mount_point h t) (map m_target (mounts h))"

definition names_of :: "host \<Rightarrow> string \<Rightarrow> string list" where
  "names_of h r =
     filter (\<lambda>q. resolve h q = r)
       (r # map (\<lambda>m. rebase (m_source m) (m_target m) r)
              (filter (\<lambda>m. within (m_source m) r) (mounts h)))"

definition removable :: "host \<Rightarrow> string \<Rightarrow> string \<Rightarrow> bool" where
  "removable h p r =
     list_ex (\<lambda>q. within p q \<and> filter (within q) (mount_points_within h p) = [])
       (names_of h r)"

definition os_RemoveAll :: "string \<Rightarrow> host \<Rightarrow> errno option \<times> host" where
  "os_RemoveAll path h =
     (let p = filepath_Clean path in
      if path = [] then (None, h)
      else if path = ''.'' \<or> suffix ''/.'' path then (Some EINVAL, h)
      else (case remove_fault h p of
              Some e \<Rightarrow> (if e = ENOENT then None else Some e, h)
            | None \<Rightarrow>
                if \<not> exists_dir h path then (None, h)
                else (if mount_points_within h p = [] then None else Some EBUSY,
                      h\<lparr>dirs := Set.filter (\<lambda>r. \<not> removable h p r) (dirs h)\<rparr>)))"

text \<open>
  \<open>syscall.Mount(source, target, fstype, flags, data)\<close> with \<open>MS_BIND\<close>, as mount(2)
  has it: the file system type and the data are ignored, source and target must exist
  (\<open>ENOENT\<close>), and the new mount is attached at the target whether or not something is
  mounted there already; it shows the directory that the source names at that moment.
  Without \<open>MS_BIND\<close> the empty file system type names no device (\<open>ENODEV\<close>). The flags
  are recorded as they were passed.
\<close>

definition syscall_Mount ::
  "string \<Rightarrow> string \<Rightarrow> string \<Rightarrow> 64 word \<Rightarrow> string \<Rightarrow> host \<Rightarrow> errno option \<times> host" where
  "syscall_Mount source target fstype flags data h =
     (let s = filepath_Clean source; t = filepath_Clean target in
      case mount_fault h s t of
        Some e \<Rightarrow> (Some e, h)
      | None \<Rightarrow>
          if flags AND MS_BIND = 0 then (Some ENODEV, h)
          else if \<not> (exists_dir h source \<and> exists_dir h target) then (Some ENOENT, h)
          else (None, h\<lparr>mounts := \<lparr>m_source = resolve h s, m_target = t, m_flags = flags\<rparr>
                                     # mounts h\<rparr>))"

text \<open>The bindings the mount table holds at a target path.\<close>

definition bindings_at :: "string \<Rightarrow> host \<Rightarrow> mount_entry list" where
  "bindings_at target h = filter (\<lambda>m. m_target m = filepath_Clean target) (mounts h)"

text \<open>
  \<open>syscall.Unmount(target, flags)\<close>, as umount(2) has it: the path is looked up first
  (\<open>ENOENT\<close> when it does not exist), a path that is not a mount point gives \<open>EINVAL\<close>,
  a mount with other mounts attached below it is busy (\<open>EBUSY\<close>, as is the root), and
  otherwise the topmost mount at the target is removed.

  \<open>detach t ms\<close> walks the table from the newest entry: an entry at \<open>t\<close> is the one to
  remove; an entry above \<open>t\<close> hides whatever is attached at \<open>t\<close>, which then is no mount
  point; an entry below \<open>t\<close> keeps the mount at \<open>t\<close>, if there is one, busy.
\<close>

fun detach :: "string \<Rightarrow> mount_entry list \<Rightarrow> errno + mount_entry list" where
  "detach t [] = Inl (if t = ''/'' then EBUSY else EINVAL)"
| "detach t (m # ms) =
     (if m_target m = t then Inr ms
      else if within (m_target m) t then Inl EINVAL
      else (case detach t ms of
              Inl e \<Rightarrow> Inl e
            | Inr ms' \<Rightarrow> if within t (m_target m) then Inl EBUSY else Inr (m # ms')))"

definition syscall_Unmount :: "string \<Rightarrow> nat \<Rightarrow> host \<Rightarrow> errno option \<times> host" where
  "syscall_Unmount target flags h =
     (let t = filepath_Clean target in
      if \<not> exists_dir h target then (Some ENOENT, h)
      else (case umount_fault h t of
              Some e \<Rightarrow> (Some e, h)
            | None \<Rightarrow>
                (case detach t (mounts h) of
                   Inl e \<Rightarrow> (Some e, h)
                 | Inr ms \<Rightarrow> (None, h\<lparr>mounts := ms\<rparr>))))"

section \<open>Status errors and log lines\<close>

text \<open>
  gRPC's status codes, in the order of \<open>google.golang.org/grpc/codes\<close>. A status keeps
  its message as the format string and the operands in order: \<open>status.Error(c, msg)\<close>
  has no operands, \<open>status.Errorf(c, format, a...)\<close> has those of the call.
\<close>

datatype code = OK | Canceled | Unknown | InvalidArgument | DeadlineExceeded | NotFound
  | AlreadyExists | PermissionDenied | ResourceExhausted | FailedPrecondition | Aborted
  | OutOfRange | Unimplemented | Internal | Unavailable | DataLoss | Unauthenticated

datatype arg = S string | E errno

datatype status = Status code string "arg list"

fun Code :: "status \<Rightarrow> code" where
  "Code (Status c msg as) = c"

definition status_Error :: "code \<Rightarrow> string \<Rightarrow> status" where
  "status_Error c msg = Status c msg []"

definition status_Errorf :: "code \<Rightarrow> string \<Rightarrow> arg list \<Rightarrow> status" where
  "status_Errorf c format as = Status c format as"

text \<open>
  A Go \<open>error\<close> that reaches the interceptor is a gRPC status or any other error value;
  \<open>status.FromError\<close> gives the status of the first and \<open>Unknown\<close> for the second.
\<close>

datatype error = GRPCStatus status | Plain string

fun status_FromError :: "error \<Rightarrow> status" where
  "status_FromError (GRPCStatus st) = st"
| "status_FromError (Plain msg) = Status Unknown msg []"

text \<open>
  A klog call is a line the call emits: severity, the verbosity of \<open>klog.V(n)\<close> (zero
  without it), the format string and its operands. Handlers write the log and never
  read it.
\<close>

datatype severity = INFO | ERROR

datatype log_arg = LS string | LE error

datatype log_line = Klog severity nat string "log_arg list"

text \<open>
  The arrows of the source's messages, byte for byte: \<open>node.go\<close> has the right arrow in
  UTF-8, three bytes; the format string of \<open>logInterceptor\<close> in \<open>driver.go\<close> holds
  eight bytes in its place, the UTF-8 of the characters U+00E2, U+2020 and U+2019.
\<close>

definition arrow :: string where
  "arrow = [CHR 0xE2, CHR 0x86, CHR 0x92]"

definition rpc_arrow :: string where
  "rpc_arrow = [CHR 0xC3, CHR 0xA2, CHR 0xE2, CHR 0x80, CHR 0xA0, CHR 0xE2, CHR 0x80, CHR 0x99]"

section \<open>The CSI messages the handlers read and build\<close>

text \<open>
  Access modes are the protocol's 32-bit enumeration; a peer may send any number. An
  absent message is \<open>None\<close>, and the generated getters are nil-safe: \<open>GetMode\<close> of an
  absent access mode is \<open>UNKNOWN\<close>. The entries of a decoded capability list are never
  nil.
\<close>

definition UNKNOWN :: "32 word" where
  "UNKNOWN = 0"

definition SINGLE_NODE_WRITER :: "32 word" where
  "SINGLE_NODE_WRITER = 1"

definition SINGLE_NODE_READER_ONLY :: "32 word" where
  "SINGLE_NODE_READER_ONLY = 2"

definition MULTI_NODE_READER_ONLY :: "32 word" where
  "MULTI_NODE_READER_ONLY = 3"

definition MULTI_NODE_SINGLE_WRITER :: "32 word" where
  "MULTI_NODE_SINGLE_WRITER = 4"

definition MULTI_NODE_MULTI_WRITER :: "32 word" where
  "MULTI_NODE_MULTI_WRITER = 5"

record AccessMode =
  mode :: "32 word"

datatype access_type = Block | Mount string "string list"

record VolumeCapability =
  access_type :: "access_type option"
  access_mode :: "AccessMode option"

definition GetAccessMode :: "VolumeCapability \<Rightarrow> AccessMode option" where
  "GetAccessMode cap = access_mode cap"

definition GetMode :: "AccessMode option \<Rightarrow> 32 word" where
  "GetMode am = (case am of None \<Rightarrow> UNKNOWN | Some a \<Rightarrow> mode a)"

record CapacityRange =
  required_bytes :: "64 word"
  limit_bytes :: "64 word"

record CreateVolumeRequest =
  cv_name :: string
  cv_capacity_range :: "CapacityRange option"
  cv_volume_capabilities :: "VolumeCapability list"
  cv_parameters :: "string \<rightharpoonup> string"

record Volume =
  capacity_bytes :: "64 word"
  volume_id :: string
  volume_context :: "string \<rightharpoonup> string"

record CreateVolumeResponse =
  volume :: Volume

record DeleteVolumeRequest =
  dv_volume_id :: string

datatype DeleteVolumeResponse = DeleteVolumeResponse

record ValidateVolumeCapabilitiesRequest =
  vv_volume_id :: string
  vv_volume_capabilities :: "VolumeCapability list"

record Confirmed =
  volume_capabilities :: "VolumeCapability list"

record ValidateVolumeCapabilitiesResponse =
  confirmed :: "Confirmed option"
  message :: string

record NodePublishVolumeRequest =
  np_volume_id :: string
  np_target_path :: string
  np_volume_capability :: "VolumeCapability option"
  np_readonly :: bool

datatype NodePublishVolumeResponse = NodePublishVolumeResponse

record NodeUnpublishVolumeRequest =
  nu_volume_id :: string
  nu_target_path :: string

datatype NodeUnpublishVolumeResponse = NodeUnpublishVolumeResponse

datatype GetPluginInfoRequest = GetPluginInfoRequest

record GetPluginInfoResponse =
  name :: string
  vendor_version :: string

datatype ProbeRequest = ProbeRequest

record ProbeResponse =
  ready :: "bool option"

record UnaryServerInfo =
  FullMethod :: string

section \<open>The driver\<close>

definition driverName :: string where
  "driverName = ''demo.csi.example.com''"

definition driverVersion :: string where
  "driverVersion = ''v0.1.0''"

record Driver =
  nodeID :: string
  stateDir :: string

text \<open>
  A handler takes the driver, the request and the host, and returns what the Go method
  returns (\<open>Inl\<close> the status error, \<open>Inr\<close> the response), the host as the call
  leaves it, and the log lines it wrote.
\<close>

type_synonym 'a rpc = "host \<Rightarrow> (status + 'a) \<times> host \<times> log_line list"

subsection \<open>Identity service\<close>

definition GetPluginInfo :: "Driver \<Rightarrow> GetPluginInfoRequest option \<Rightarrow> GetPluginInfoResponse rpc" where
  "GetPluginInfo d req h =
     (Inr \<lparr>name = driverName, vendor_version = driverVersion\<rparr>, h, [])"

definition Probe :: "Driver \<Rightarrow> ProbeRequest option \<Rightarrow> ProbeResponse rpc" where
  "Probe d req h =
     (if req = None then (Inl (status_Error InvalidArgument ''nil request''), h, [])
      else (Inr \<lparr>ready = None\<rparr>, h, []))"

subsection \<open>Controller service\<close>

definition CreateVolume :: "Driver \<Rightarrow> CreateVolumeRequest \<Rightarrow> CreateVolumeResponse rpc" where
  "CreateVolume d req h =
     (if cv_name req = [] then
        (Inl (status_Error InvalidArgument ''volume name is required''), h, [])
      else if length (cv_volume_capabilities req) = 0 then
        (Inl (status_Error InvalidArgument ''volume capabilities are required''), h, [])
      else
        let volumeID = cv_name req;
            volumeDir = filepath_Join (stateDir d) volumeID
        in case os_MkdirAll volumeDir h of
             (Some err, h') \<Rightarrow>
               (Inl (status_Errorf Internal ''failed to create volume dir %q: %v''
                       [S volumeDir, E err]), h', [])
           | (None, h') \<Rightarrow>
               let capacityBytes =
                     (case cv_capacity_range req of None \<Rightarrow> 0 | Some cr \<Rightarrow> required_bytes cr)
               in (Inr \<lparr>volume = \<lparr>capacity_bytes = capacityBytes, volume_id = volumeID,
                                   volume_context = cv_parameters req\<rparr>\<rparr>,
                   h',
                   [Klog INFO 0 ''CreateVolume: id=%s path=%s'' [LS volumeID, LS volumeDir]]))"

definition DeleteVolume :: "Driver \<Rightarrow> DeleteVolumeRequest \<Rightarrow> DeleteVolumeResponse rpc" where
  "DeleteVolume d req h =
     (if dv_volume_id req = [] then
        (Inl (status_Error InvalidArgument ''volume ID is required''), h, [])
      else
        let volumeDir = filepath_Join (stateDir d) (dv_volume_id req)
        in case os_RemoveAll volumeDir h of
             (Some err, h') \<Rightarrow>
               (Inl (status_Errorf Internal ''failed to delete volume dir %q: %v''
                       [S volumeDir, E err]), h', [])
           | (None, h') \<Rightarrow>
               (Inr DeleteVolumeResponse, h',
                [Klog INFO 0 ''DeleteVolume: id=%s path=%s''
                   [LS (dv_volume_id req), LS volumeDir]]))"

text \<open>
  The loop of \<open>ValidateVolumeCapabilities\<close>: the first capability whose mode is none of
  the three returns the response with the message and no confirmation; \<open>None\<close> when the
  loop runs to its end.
\<close>

fun unsupported_mode :: "VolumeCapability list \<Rightarrow> ValidateVolumeCapabilitiesResponse option" where
  "unsupported_mode [] = None"
| "unsupported_mode (cap # caps) =
     (let mode = GetMode (GetAccessMode cap) in
      if mode \<noteq> SINGLE_NODE_WRITER \<and> mode \<noteq> SINGLE_NODE_READER_ONLY
           \<and> mode \<noteq> MULTI_NODE_READER_ONLY
      then Some \<lparr>confirmed = None, message = ''unsupported access mode''\<rparr>
      else unsupported_mode caps)"

definition ValidateVolumeCapabilities ::
  "Driver \<Rightarrow> ValidateVolumeCapabilitiesRequest \<Rightarrow> ValidateVolumeCapabilitiesResponse rpc" where
  "ValidateVolumeCapabilities d req h =
     (if vv_volume_id req = [] then
        (Inl (status_Error InvalidArgument ''volume ID is required''), h, [])
      else if length (vv_volume_capabilities req) = 0 then
        (Inl (status_Error InvalidArgument ''volume capabilities are required''), h, [])
      else (case unsupported_mode (vv_volume_capabilities req) of
              Some resp \<Rightarrow> (Inr resp, h, [])
            | None \<Rightarrow>
                (Inr \<lparr>confirmed = Some \<lparr>volume_capabilities = vv_volume_capabilities req\<rparr>,
                      message = []\<rparr>, h, [])))"

subsection \<open>Node service\<close>

definition NodePublishVolume ::
  "Driver \<Rightarrow> NodePublishVolumeRequest \<Rightarrow> NodePublishVolumeResponse rpc" where
  "NodePublishVolume d req h =
     (if np_volume_id req = [] then
        (Inl (status_Error InvalidArgument ''volume ID is required''), h, [])
      else if np_target_path req = [] then
        (Inl (status_Error InvalidArgument ''target path is required''), h, [])
      else if np_volume_capability req = None then
        (Inl (status_Error InvalidArgument ''volume capability is required''), h, [])
      else
        let volumeDir = filepath_Join (stateDir d) (np_volume_id req);
            targetPath = np_target_path req
        in case os_MkdirAll volumeDir h of
             (Some err, h1) \<Rightarrow>
               (Inl (status_Errorf Internal ''failed to create volume dir %q: %v''
                       [S volumeDir, E err]), h1, [])
           | (None, h1) \<Rightarrow>
               (case os_MkdirAll targetPath h1 of
                  (Some err, h2) \<Rightarrow>
                    (Inl (status_Errorf Internal ''failed to create target dir %q: %v''
                            [S targetPath, E err]), h2, [])
                | (None, h2) \<Rightarrow>
                    let flags = (if np_readonly req then MS_BIND OR MS_RDONLY else MS_BIND)
                    in (case syscall_Mount volumeDir targetPath [] flags [] h2 of
                          (Some err, h3) \<Rightarrow>
                            (Inl (status_Errorf Internal
                                    (''bind mount %q '' @ arrow @ '' %q failed: %v'')
                                    [S volumeDir, S targetPath, E err]), h3, [])
                        | (None, h3) \<Rightarrow>
                            (Inr NodePublishVolumeResponse, h3,
                             [Klog INFO 0 ''NodePublishVolume: id=%s src=%s target=%s''
                                [LS (np_volume_id req), LS volumeDir, LS targetPath]]))))"

definition NodeUnpublishVolume ::
  "Driver \<Rightarrow> NodeUnpublishVolumeRequest \<Rightarrow> NodeUnpublishVolumeResponse rpc" where
  "NodeUnpublishVolume d req h =
     (if nu_volume_id req = [] then
        (Inl (status_Error InvalidArgument ''volume ID is required''), h, [])
      else if nu_target_path req = [] then
        (Inl (status_Error InvalidArgument ''target path is required''), h, [])
      else
        let targetPath = nu_target_path req
        in case syscall_Unmount targetPath 0 h of
             (Some err, h') \<Rightarrow>
               if err = EINVAL then
                 (Inr NodeUnpublishVolumeResponse, h',
                  [Klog INFO 4 ''NodeUnpublishVolume: %q is not mounted, skipping''
                     [LS targetPath]])
               else
                 (Inl (status_Errorf Internal ''unmount %q failed: %v''
                         [S targetPath, E err]), h', [])
           | (None, h') \<Rightarrow>
               (Inr NodeUnpublishVolumeResponse, h',
                [Klog INFO 0 ''NodeUnpublishVolume: id=%s target=%s''
                   [LS (nu_volume_id req), LS targetPath]]))"

subsection \<open>The logging interceptor\<close>

text \<open>
  \<open>logInterceptor\<close> wraps any unary handler. A handler here is what gRPC hands the
  interceptor: a function of the request whose outcome is Go's pair of a response and
  an error, either of which may be nil.
\<close>

type_synonym ('req, 'resp) handler =
  "'req \<Rightarrow> host \<Rightarrow> ('resp option \<times> error option) \<times> host \<times> log_line list"

definition logInterceptor ::
  "'req \<Rightarrow> UnaryServerInfo \<Rightarrow> ('req, 'resp) handler \<Rightarrow> host
     \<Rightarrow> ('resp option \<times> error option) \<times> host \<times> log_line list" where
  "logInterceptor req info handler h =
     (case handler req h of
        ((resp, err), h', ls) \<Rightarrow>
          ((resp, err), h',
           [Klog INFO 4 (''RPC '' @ rpc_arrow @ '' %s'') [LS (FullMethod info)]] @ ls @
           (case err of
              None \<Rightarrow> []
            | Some e \<Rightarrow>
                let st = status_FromError e in
                if Code st \<noteq> OK
                then [Klog ERROR 0 ''RPC %s failed: %v'' [LS (FullMethod info), LE e]]
                else [])))"

text \<open>A method of the driver as the server registers it: the Go pair of its result.\<close>

definition unary :: "('req \<Rightarrow> 'resp rpc) \<Rightarrow> ('req, 'resp) handler" where
  "unary f req h =
     (case f req h of
        (Inl st, h', ls) \<Rightarrow> ((None, Some (GRPCStatus st)), h', ls)
      | (Inr r, h', ls) \<Rightarrow> ((Some r, None), h', ls))"

section \<open>A host and requests to run the handlers on\<close>

text \<open>
  A host with no directories, nothing mounted and no faults; the driver with the
  default state directory of \<open>cmd/main.go\<close>; the requests of the specification's
  scenarios.
\<close>

definition fresh_host :: host where
  "fresh_host = \<lparr>dirs = {}, mounts = [], mkdir_fault = (\<lambda>p. None),
                 remove_fault = (\<lambda>p. None), mount_fault = (\<lambda>s t. None),
                 umount_fault = (\<lambda>t. None)\<rparr>"

definition demo_driver :: Driver where
  "demo_driver = \<lparr>nodeID = ''node-1'', stateDir = ''/var/lib/demo-csi/volumes''\<rparr>"

definition single_writer :: VolumeCapability where
  "single_writer = \<lparr>access_type = Some (Mount [] []),
                    access_mode = Some \<lparr>mode = SINGLE_NODE_WRITER\<rparr>\<rparr>"

definition multi_writer :: VolumeCapability where
  "multi_writer = \<lparr>access_type = Some (Mount [] []),
                   access_mode = Some \<lparr>mode = MULTI_NODE_MULTI_WRITER\<rparr>\<rparr>"

definition no_mode :: VolumeCapability where
  "no_mode = \<lparr>access_type = Some (Mount [] []), access_mode = None\<rparr>"

definition create_pvc1 :: CreateVolumeRequest where
  "create_pvc1 = \<lparr>cv_name = ''pvc-1'',
                  cv_capacity_range = Some \<lparr>required_bytes = 1073741824, limit_bytes = 0\<rparr>,
                  cv_volume_capabilities = [single_writer],
                  cv_parameters = Map.empty\<rparr>"

definition publish_pvc1 :: NodePublishVolumeRequest where
  "publish_pvc1 = \<lparr>np_volume_id = ''pvc-1'', np_target_path = ''/pods/x/vol'',
                   np_volume_capability = Some single_writer, np_readonly = False\<rparr>"

definition unpublish_pvc1 :: NodeUnpublishVolumeRequest where
  "unpublish_pvc1 = \<lparr>nu_volume_id = ''pvc-1'', nu_target_path = ''/pods/x/vol''\<rparr>"

definition pvc1_binding :: mount_entry where
  "pvc1_binding = \<lparr>m_source = ''/var/lib/demo-csi/volumes/pvc-1'',
                   m_target = ''/pods/x/vol'', m_flags = 4096\<rparr>"

text \<open>The host a call leaves behind.\<close>

definition host_after :: "'a rpc \<Rightarrow> host \<Rightarrow> host" where
  "host_after call h = fst (snd (call h))"

text \<open>A host where the target directory exists and nothing is mounted.\<close>

definition idle_host :: host where
  "idle_host = fresh_host\<lparr>dirs := {''/pods/x/vol''}\<rparr>"


text \<open>
  A host where volume \<open>pvc-1\<close> holds a directory \<open>sub\<close> and is bound at \<open>/pods/x/vol\<close>.
\<close>

definition bound_host :: host where
  "bound_host =
     fresh_host\<lparr>dirs := {''/var/lib/demo-csi/volumes/pvc-1'',
                          ''/var/lib/demo-csi/volumes/pvc-1/sub'', ''/pods/x/vol''},
                 mounts := [pvc1_binding]\<rparr>"

section \<open>Evaluating the example paths\<close>

lemmas path_defs =
  filepath_Join_def filepath_Clean_def render_def path_elems_def is_rooted_def

lemma demo_volumeDir:
  "filepath_Join (stateDir demo_driver) ''pvc-1'' = ''/var/lib/demo-csi/volumes/pvc-1''"
  by (simp add: demo_driver_def path_defs)

lemma clean_volumeDir:
  "filepath_Clean ''/var/lib/demo-csi/volumes/pvc-1'' = ''/var/lib/demo-csi/volumes/pvc-1''"
  by (simp add: path_defs)

lemma clean_target: "filepath_Clean ''/pods/x/vol'' = ''/pods/x/vol''"
  by (simp add: path_defs)

section \<open>Identity service and the interceptor\<close>

text \<open>
  C8. \<open>GetPluginInfo\<close> answers every call, whatever the driver, the request and the
  host, with the same name and version and no error, and touches nothing.
  \<open>Probe\<close> answers every present request with the empty response (no \<open>ready\<close> flag
  set to false: the protocol reads that as ready), and returns an error, the
  \<open>InvalidArgument\<close> status "nil request", exactly when the request is absent.
\<close>

theorem identity_fixed_answers:
  "GetPluginInfo d req h
     = (Inr \<lparr>name = ''demo.csi.example.com'', vendor_version = ''v0.1.0''\<rparr>, h, [])
   \<and> Probe d (Some r) h = (Inr \<lparr>ready = None\<rparr>, h, [])
   \<and> Probe d None h = (Inl (Status InvalidArgument ''nil request'' []), h, [])
   \<and> ((\<exists>st. fst (Probe d p h) = Inl st) = (p = None))"
  by (simp add: GetPluginInfo_def Probe_def driverName_def driverVersion_def status_Error_def)

text \<open>
  C7. For every request, every method description and every handler, whatever the
  handler returns, the interceptor returns the handler's own pair of response and error,
  and leaves the host as the handler left it: it only adds log lines.
\<close>

theorem logInterceptor_transparent:
  "fst (logInterceptor req info handler h) = fst (handler req h)
   \<and> fst (snd (logInterceptor req info handler h)) = fst (snd (handler req h))"
  by (cases "handler req h") (auto simp: logInterceptor_def split: prod.splits)

section \<open>Capability validation\<close>

lemma unsupported_mode_None:
  "(unsupported_mode caps = None)
     = (\<forall>c \<in> set caps. GetMode (GetAccessMode c)
          \<in> {SINGLE_NODE_WRITER, SINGLE_NODE_READER_ONLY, MULTI_NODE_READER_ONLY})"
  by (induction caps) (auto simp: Let_def)

lemma unsupported_mode_Some:
  "unsupported_mode caps = Some r
     \<Longrightarrow> r = \<lparr>confirmed = None, message = ''unsupported access mode''\<rparr>"
  by (induction caps) (auto simp: Let_def split: if_splits)

text \<open>
  C3. For a request with a volume id and at least one capability: if some capability's
  access mode is outside single-writer, single-reader and multi-reader, the call returns a
  response (not an error) with no confirmation and the non-empty message "unsupported
  access mode"; if every mode is one of the three, it returns the confirmation that
  carries the requested capabilities as they came.
\<close>

theorem ValidateVolumeCapabilities_allow_list:
  assumes "vv_volume_id req \<noteq> []" and "vv_volume_capabilities req \<noteq> []"
  shows "((\<exists>c \<in> set (vv_volume_capabilities req).
             GetMode (GetAccessMode c)
               \<notin> {SINGLE_NODE_WRITER, SINGLE_NODE_READER_ONLY, MULTI_NODE_READER_ONLY})
          \<longrightarrow> fst (ValidateVolumeCapabilities d req h)
                 = Inr \<lparr>confirmed = None, message = ''unsupported access mode''\<rparr>
              \<and> message \<lparr>confirmed = None, message = ''unsupported access mode''\<rparr> \<noteq> [])
       \<and> ((\<forall>c \<in> set (vv_volume_capabilities req).
             GetMode (GetAccessMode c)
               \<in> {SINGLE_NODE_WRITER, SINGLE_NODE_READER_ONLY, MULTI_NODE_READER_ONLY})
          \<longrightarrow> fst (ValidateVolumeCapabilities d req h)
                 = Inr \<lparr>confirmed = Some \<lparr>volume_capabilities = vv_volume_capabilities req\<rparr>,
                       message = []\<rparr>)"
proof (cases "unsupported_mode (vv_volume_capabilities req)")
  case None
  with assms show ?thesis
    using unsupported_mode_None [of "vv_volume_capabilities req"]
    by (auto simp: ValidateVolumeCapabilities_def)
next
  case (Some r)
  with assms show ?thesis
    using unsupported_mode_None [of "vv_volume_capabilities req"] unsupported_mode_Some [OF Some]
    by (auto simp: ValidateVolumeCapabilities_def)
qed

theorem ValidateVolumeCapabilities_allow_list_witness:
  "fst (ValidateVolumeCapabilities demo_driver
          \<lparr>vv_volume_id = ''pvc-1'', vv_volume_capabilities = [single_writer, multi_writer]\<rparr>
          fresh_host)
     = Inr \<lparr>confirmed = None, message = ''unsupported access mode''\<rparr>
   \<and> fst (ValidateVolumeCapabilities demo_driver
          \<lparr>vv_volume_id = ''pvc-1'', vv_volume_capabilities = [single_writer]\<rparr> fresh_host)
     = Inr \<lparr>confirmed = Some \<lparr>volume_capabilities = [single_writer]\<rparr>, message = []\<rparr>"
  using ValidateVolumeCapabilities_allow_list
          [of "\<lparr>vv_volume_id = ''pvc-1'',
                vv_volume_capabilities = [single_writer, multi_writer]\<rparr>"
              demo_driver fresh_host]
        ValidateVolumeCapabilities_allow_list
          [of "\<lparr>vv_volume_id = ''pvc-1'', vv_volume_capabilities = [single_writer]\<rparr>"
              demo_driver fresh_host]
  by (simp add: single_writer_def multi_writer_def GetMode_def
        GetAccessMode_def SINGLE_NODE_WRITER_def SINGLE_NODE_READER_ONLY_def
        MULTI_NODE_READER_ONLY_def MULTI_NODE_MULTI_WRITER_def)

text \<open>
  C10. For a request with a volume id whose capability list holds a capability with no
  access mode, or with the mode left at zero (\<open>UNKNOWN\<close>), the call returns the response
  with no confirmation and the message, not an error, and leaves the host alone.
\<close>

theorem ValidateVolumeCapabilities_unknown_mode:
  assumes "vv_volume_id req \<noteq> []"
      and "c \<in> set (vv_volume_capabilities req)"
      and "access_mode c = None \<or> (\<exists>a. access_mode c = Some a \<and> mode a = UNKNOWN)"
  shows "ValidateVolumeCapabilities d req h
           = (Inr \<lparr>confirmed = None, message = ''unsupported access mode''\<rparr>, h, [])"
proof -
  from assms(3) have "GetMode (GetAccessMode c) = 0"
    by (auto simp: GetMode_def GetAccessMode_def UNKNOWN_def)
  then have "GetMode (GetAccessMode c)
               \<notin> {SINGLE_NODE_WRITER, SINGLE_NODE_READER_ONLY, MULTI_NODE_READER_ONLY}"
    by (simp add: SINGLE_NODE_WRITER_def SINGLE_NODE_READER_ONLY_def
          MULTI_NODE_READER_ONLY_def)
  with assms(2) have "unsupported_mode (vv_volume_capabilities req) \<noteq> None"
    using unsupported_mode_None [of "vv_volume_capabilities req"] by blast
  then obtain r where r: "unsupported_mode (vv_volume_capabilities req) = Some r"
    by blast
  from assms(2) have "vv_volume_capabilities req \<noteq> []"
    by auto
  with assms(1) r unsupported_mode_Some [OF r] show ?thesis
    by (simp add: ValidateVolumeCapabilities_def)
qed

theorem ValidateVolumeCapabilities_unknown_mode_witness:
  "ValidateVolumeCapabilities demo_driver
     \<lparr>vv_volume_id = ''pvc-1'', vv_volume_capabilities = [single_writer, no_mode]\<rparr> fresh_host
     = (Inr \<lparr>confirmed = None, message = ''unsupported access mode''\<rparr>, fresh_host, [])
   \<and> ValidateVolumeCapabilities demo_driver
     \<lparr>vv_volume_id = ''pvc-1'',
      vv_volume_capabilities = [\<lparr>access_type = None, access_mode = Some \<lparr>mode = 0\<rparr>\<rparr>]\<rparr>
     fresh_host
     = (Inr \<lparr>confirmed = None, message = ''unsupported access mode''\<rparr>, fresh_host, [])"
  using ValidateVolumeCapabilities_unknown_mode
          [of "\<lparr>vv_volume_id = ''pvc-1'', vv_volume_capabilities = [single_writer, no_mode]\<rparr>"
              no_mode demo_driver fresh_host]
        ValidateVolumeCapabilities_unknown_mode
          [of "\<lparr>vv_volume_id = ''pvc-1'',
                vv_volume_capabilities
                  = [\<lparr>access_type = None, access_mode = Some \<lparr>mode = 0\<rparr>\<rparr>]\<rparr>"
              "\<lparr>access_type = None, access_mode = Some \<lparr>mode = 0\<rparr>\<rparr>" demo_driver fresh_host]
  by (simp add: no_mode_def UNKNOWN_def)

text \<open>
  C9. \<open>ValidateVolumeCapabilities\<close> makes no call on the host: for every request it
  returns the host as it found it and writes no log line, and its answer is the same on
  any two hosts. In particular a request with a volume id and with allowed modes only is
  confirmed on a host where the volume's backing directory does not exist.
\<close>

theorem ValidateVolumeCapabilities_frame:
  "snd (ValidateVolumeCapabilities d req h) = (h, [])
   \<and> fst (ValidateVolumeCapabilities d req h) = fst (ValidateVolumeCapabilities d req h')
   \<and> (vv_volume_id req \<noteq> [] \<longrightarrow> vv_volume_capabilities req \<noteq> [] \<longrightarrow>
      (\<forall>c \<in> set (vv_volume_capabilities req).
          GetMode (GetAccessMode c)
            \<in> {SINGLE_NODE_WRITER, SINGLE_NODE_READER_ONLY, MULTI_NODE_READER_ONLY}) \<longrightarrow>
      \<not> exists_dir h (filepath_Join (stateDir d) (vv_volume_id req)) \<longrightarrow>
      ValidateVolumeCapabilities d req h
        = (Inr \<lparr>confirmed = Some \<lparr>volume_capabilities = vv_volume_capabilities req\<rparr>,
                message = []\<rparr>, h, []))"
  using unsupported_mode_None [of "vv_volume_capabilities req"]
  by (auto simp: ValidateVolumeCapabilities_def split: option.splits)

theorem ValidateVolumeCapabilities_frame_witness:
  "\<not> exists_dir fresh_host (filepath_Join (stateDir demo_driver) ''pvc-1'')
   \<and> ValidateVolumeCapabilities demo_driver
       \<lparr>vv_volume_id = ''pvc-1'', vv_volume_capabilities = [single_writer]\<rparr> fresh_host
     = (Inr \<lparr>confirmed = Some \<lparr>volume_capabilities = [single_writer]\<rparr>, message = []\<rparr>,
        fresh_host, [])"
  using ValidateVolumeCapabilities_frame
          [of demo_driver
              "\<lparr>vv_volume_id = ''pvc-1'', vv_volume_capabilities = [single_writer]\<rparr>"
              fresh_host fresh_host]
  by (simp add: exists_dir_def is_mount_point_def resolve_def covering_def fresh_host_def
        demo_volumeDir clean_volumeDir single_writer_def GetMode_def GetAccessMode_def
        SINGLE_NODE_WRITER_def)

section \<open>What the path functions guarantee\<close>

lemma filepath_Clean_nonempty: "filepath_Clean p \<noteq> []"
  by (simp add: filepath_Clean_def render_def Let_def)

lemma filepath_Join_nonempty: "b \<noteq> [] \<Longrightarrow> filepath_Join a b \<noteq> []"
  by (simp add: filepath_Join_def filepath_Clean_nonempty)








section \<open>What the host operations guarantee\<close>

lemmas lookup_defs = exists_dir_def is_mount_point_def resolve_def covering_def

lemma resolve_same_mounts: "mounts h' = mounts h \<Longrightarrow> resolve h' q = resolve h q"
  by (simp add: resolve_def covering_def)

lemma exists_dir_mono:
  "mounts h' = mounts h \<Longrightarrow> dirs h \<subseteq> dirs h' \<Longrightarrow> exists_dir h p \<Longrightarrow> exists_dir h' p"
  by (auto simp: lookup_defs Let_def)

lemma exists_dir_fault_update:
  "exists_dir (h\<lparr>mkdir_fault := f\<rparr>) path = exists_dir h path"
  by (simp add: lookup_defs)

lemma exists_dir_mount_point:
  "target \<noteq> [] \<Longrightarrow> mounts h = m # ms \<Longrightarrow> m_target m = filepath_Clean target
     \<Longrightarrow> exists_dir h target"
  by (simp add: lookup_defs within_def Let_def)

lemma os_MkdirAll_existing:
  "exists_dir h path \<Longrightarrow> os_MkdirAll path h = (None, h)"
  by (simp add: os_MkdirAll_def exists_dir_def)

lemma os_MkdirAll_ok:
  assumes "os_MkdirAll path h = (None, h')"
  shows "exists_dir h' path \<and> mounts h' = mounts h \<and> dirs h \<subseteq> dirs h'
         \<and> mkdir_fault h' = mkdir_fault h \<and> mount_fault h' = mount_fault h
         \<and> umount_fault h' = umount_fault h"
proof (cases "exists_dir h path")
  case True
  with assms show ?thesis
    by (simp add: os_MkdirAll_existing)
next
  case False
  with assms
  have h': "h' = h\<lparr>dirs := insert (resolve h (filepath_Clean path))
                             (dirs h \<union> set (map (resolve h) (ancestors (filepath_Clean path))))\<rparr>"
    and ne: "path \<noteq> []"
    by (auto simp: os_MkdirAll_def Let_def split: if_splits option.splits)
  from ne have "exists_dir h' path"
    unfolding h' by (simp add: lookup_defs Let_def)
  then show ?thesis
    unfolding h' by auto
qed

lemma os_MkdirAll_succeeds:
  assumes "path \<noteq> []"
      and "exists_dir h path \<or> mkdir_fault h (filepath_Clean path) = None"
  shows "\<exists>h1. os_MkdirAll path h = (None, h1)"
proof (cases "exists_dir h path")
  case True
  then show ?thesis
    by (simp add: os_MkdirAll_existing)
next
  case False
  with assms show ?thesis
    by (simp add: os_MkdirAll_def Let_def)
qed



lemma detach_no_entry:
  "filter (\<lambda>m. m_target m = t) ms = [] \<Longrightarrow> t \<noteq> ''/'' \<Longrightarrow> detach t ms = Inl EINVAL"
  by (induction ms) (auto split: if_splits)

lemma syscall_Unmount_not_mounted:
  assumes "exists_dir h target" and "bindings_at target h = []"
      and "umount_fault h (filepath_Clean target) = None"
      and "filepath_Clean target \<noteq> ''/''"
  shows "syscall_Unmount target flags h = (Some EINVAL, h)"
  using assms detach_no_entry [of "filepath_Clean target" "mounts h"]
  by (simp add: syscall_Unmount_def bindings_at_def Let_def)

lemma bind_flag: "(if ro then MS_BIND OR MS_RDONLY else MS_BIND) AND MS_BIND \<noteq> 0"
  by (simp add: MS_BIND_def MS_RDONLY_def)

text \<open>
  The mount table at work, on the host where \<open>pvc-1\<close> is bound at \<open>/pods/x/vol\<close>. A
  directory of the volume is seen below the target, and unpublishing it, which is no
  mount point, is the \<open>EINVAL\<close> that the handler takes for success. Removing the target
  empties the volume through the binding and then fails on the mount point itself.
  Deleting the volume while it is bound leaves the binding in place, and the target can
  still be unpublished.
\<close>

lemma Set_filter_insert:
  "Set.filter P (insert a A) = (if P a then insert a (Set.filter P A) else Set.filter P A)"
  by auto

lemma Set_filter_empty: "Set.filter P {} = {}"
  by auto

lemma lookup_through_binding:
  "exists_dir bound_host ''/pods/x/vol/sub''
   \<and> \<not> exists_dir bound_host ''/pods/x/vol/other''
   \<and> syscall_Unmount ''/pods/x/vol/sub'' 0 bound_host = (Some EINVAL, bound_host)
   \<and> fst (NodeUnpublishVolume demo_driver
            \<lparr>nu_volume_id = ''pvc-1'', nu_target_path = ''/pods/x/vol/sub''\<rparr> bound_host)
       = Inr NodeUnpublishVolumeResponse"
  by (simp add: bound_host_def fresh_host_def pvc1_binding_def lookup_defs within_def
        rebase_def NodeUnpublishVolume_def syscall_Unmount_def Let_def path_defs)

lemma os_RemoveAll_mount_point:
  "os_RemoveAll ''/pods/x/vol'' bound_host
     = (Some EBUSY,
        bound_host\<lparr>dirs := {''/var/lib/demo-csi/volumes/pvc-1'', ''/pods/x/vol''}\<rparr>)"
  by (simp add: os_RemoveAll_def bound_host_def fresh_host_def pvc1_binding_def lookup_defs
        within_def rebase_def Let_def clean_target mount_points_within_def removable_def
        names_of_def suffix_def Set_filter_insert Set_filter_empty
      del: Set.filter_eq)

lemma unpublish_after_delete:
  "fst (DeleteVolume demo_driver \<lparr>dv_volume_id = ''pvc-1''\<rparr> bound_host)
     = Inr DeleteVolumeResponse
   \<and> dirs (host_after (DeleteVolume demo_driver \<lparr>dv_volume_id = ''pvc-1''\<rparr>) bound_host)
     = {''/pods/x/vol''}
   \<and> fst (NodeUnpublishVolume demo_driver unpublish_pvc1
            (host_after (DeleteVolume demo_driver \<lparr>dv_volume_id = ''pvc-1''\<rparr>) bound_host))
     = Inr NodeUnpublishVolumeResponse"
  by (simp add: DeleteVolume_def host_after_def demo_volumeDir clean_volumeDir os_RemoveAll_def
        bound_host_def fresh_host_def pvc1_binding_def lookup_defs within_def rebase_def
        Let_def mount_points_within_def removable_def names_of_def suffix_def
        NodeUnpublishVolume_def syscall_Unmount_def unpublish_pvc1_def clean_target
        Set_filter_insert Set_filter_empty
      del: Set.filter_eq)

section \<open>Controller service\<close>

text \<open>
  C6. Whenever \<open>CreateVolume\<close> succeeds, the request had a name and a capability, and the
  response is this function of the request alone: the volume id is the name, the
  capacity is the required-bytes field of the capacity range (zero without a range), and
  the context is the request's parameters. The host does not occur in it, so nothing
  measured on the file system reaches the capacity.
\<close>

theorem CreateVolume_response:
  assumes "CreateVolume d req h = (Inr resp, h', ls)"
  shows "cv_name req \<noteq> [] \<and> cv_volume_capabilities req \<noteq> []
       \<and> resp = \<lparr>volume = \<lparr>capacity_bytes =
                              (case cv_capacity_range req of
                                 None \<Rightarrow> 0 | Some cr \<Rightarrow> required_bytes cr),
                            volume_id = cv_name req,
                            volume_context = cv_parameters req\<rparr>\<rparr>"
  using assms
  by (auto simp: CreateVolume_def Let_def split: if_splits prod.splits option.splits)

lemma create_pvc1_runs:
  "\<exists>resp h' ls. CreateVolume demo_driver create_pvc1 fresh_host = (Inr resp, h', ls)"
proof -
  have "mkdir_fault fresh_host
          (filepath_Clean (filepath_Join (stateDir demo_driver) ''pvc-1'')) = None"
    by (simp add: fresh_host_def)
  with os_MkdirAll_succeeds [of "filepath_Join (stateDir demo_driver) ''pvc-1''" fresh_host]
  obtain h1 where "os_MkdirAll (filepath_Join (stateDir demo_driver) ''pvc-1'') fresh_host
                     = (None, h1)"
    by (auto simp: demo_volumeDir)
  then show ?thesis
    by (simp add: CreateVolume_def create_pvc1_def Let_def)
qed

theorem CreateVolume_response_witness:
  "\<exists>h' ls. CreateVolume demo_driver create_pvc1 fresh_host
     = (Inr \<lparr>volume = \<lparr>capacity_bytes = 1073741824, volume_id = ''pvc-1'',
                        volume_context = Map.empty\<rparr>\<rparr>, h', ls)"
proof -
  obtain resp h' ls where
    run: "CreateVolume demo_driver create_pvc1 fresh_host = (Inr resp, h', ls)"
    using create_pvc1_runs by blast
  from CreateVolume_response [OF run]
  have "resp = \<lparr>volume = \<lparr>capacity_bytes = 1073741824, volume_id = ''pvc-1'',
                          volume_context = Map.empty\<rparr>\<rparr>"
    by (simp add: create_pvc1_def)
  with run show ?thesis
    by blast
qed

text \<open>
  C2. Take a request with a name and a capability, and a second request with the same
  name (and a capability). If the host does not refuse to create the backing directory
  (it exists already, or the host has no fault for it), the first call succeeds and
  leaves the backing directory in place, and the second call succeeds as well, with the
  same volume id, without changing the host: the directory that is already there is
  success, even on a host that would by now refuse to create any directory (\<open>f\<close> is any
  fault table for the second call).
\<close>

theorem CreateVolume_twice:
  assumes "cv_name req \<noteq> []" and "cv_volume_capabilities req \<noteq> []"
      and "cv_name req' = cv_name req" and "cv_volume_capabilities req' \<noteq> []"
      and "exists_dir h (filepath_Join (stateDir d) (cv_name req))
           \<or> mkdir_fault h (filepath_Clean (filepath_Join (stateDir d) (cv_name req))) = None"
  shows "\<exists>r1 h1 l1 r2 l2.
           CreateVolume d req h = (Inr r1, h1, l1)
         \<and> exists_dir h1 (filepath_Join (stateDir d) (cv_name req))
         \<and> CreateVolume d req' (h1\<lparr>mkdir_fault := f\<rparr>) = (Inr r2, h1\<lparr>mkdir_fault := f\<rparr>, l2)
         \<and> volume_id (volume r1) = cv_name req
         \<and> volume_id (volume r2) = volume_id (volume r1)"
proof -
  let ?dir = "filepath_Join (stateDir d) (cv_name req)"
  from assms(1) have nonempty: "?dir \<noteq> []"
    by (rule filepath_Join_nonempty)
  from os_MkdirAll_succeeds [OF nonempty assms(5)]
  obtain h1 where mk: "os_MkdirAll ?dir h = (None, h1)"
    by blast
  from os_MkdirAll_ok [OF mk] have ex: "exists_dir h1 ?dir"
    by simp
  then have again:
    "os_MkdirAll ?dir (h1\<lparr>mkdir_fault := f\<rparr>) = (None, h1\<lparr>mkdir_fault := f\<rparr>)"
    by (simp add: os_MkdirAll_existing exists_dir_fault_update)
  from assms(1,2) mk
  have "\<exists>r1 l1. CreateVolume d req h = (Inr r1, h1, l1)
          \<and> volume_id (volume r1) = cv_name req"
    by (simp add: CreateVolume_def Let_def)
  moreover from assms(1,3,4) again
  have "\<exists>r2 l2. CreateVolume d req' (h1\<lparr>mkdir_fault := f\<rparr>)
                   = (Inr r2, h1\<lparr>mkdir_fault := f\<rparr>, l2)
          \<and> volume_id (volume r2) = cv_name req"
    by (simp add: CreateVolume_def Let_def)
  ultimately show ?thesis
    using ex by auto
qed

theorem CreateVolume_twice_witness:
  "\<exists>r1 h1 l1 r2 l2.
      CreateVolume demo_driver create_pvc1 fresh_host = (Inr r1, h1, l1)
    \<and> exists_dir h1 ''/var/lib/demo-csi/volumes/pvc-1''
    \<and> CreateVolume demo_driver create_pvc1 (h1\<lparr>mkdir_fault := (\<lambda>p. Some ENOSPC)\<rparr>)
        = (Inr r2, h1\<lparr>mkdir_fault := (\<lambda>p. Some ENOSPC)\<rparr>, l2)
    \<and> volume_id (volume r1) = ''pvc-1''
    \<and> volume_id (volume r2) = volume_id (volume r1)"
proof -
  have name: "cv_name create_pvc1 = ''pvc-1''"
    by (simp add: create_pvc1_def)
  have "cv_name create_pvc1 \<noteq> []" and "cv_volume_capabilities create_pvc1 \<noteq> []"
    by (simp_all add: create_pvc1_def)
  moreover
  have "exists_dir fresh_host (filepath_Join (stateDir demo_driver) (cv_name create_pvc1))
      \<or> mkdir_fault fresh_host
           (filepath_Clean (filepath_Join (stateDir demo_driver) (cv_name create_pvc1)))
         = None"
    by (simp add: fresh_host_def)
  ultimately show ?thesis
    using CreateVolume_twice
            [of create_pvc1 create_pvc1 fresh_host demo_driver "\<lambda>p. Some ENOSPC"]
    by (simp add: name demo_volumeDir)
qed



section \<open>Node service\<close>

text \<open>
  Every publish that the host lets through attaches one more binding at the target, on
  top of whatever the mount table already holds there: the handler calls
  \<open>syscall.Mount\<close> without looking at the mount table.
\<close>

lemma NodePublishVolume_pushes:
  assumes "np_volume_id req \<noteq> []" and "np_target_path req \<noteq> []"
      and "np_volume_capability req \<noteq> None"
      and "exists_dir h (filepath_Join (stateDir d) (np_volume_id req))
           \<or> mkdir_fault h (filepath_Clean (filepath_Join (stateDir d) (np_volume_id req)))
              = None"
      and "exists_dir h (np_target_path req)
           \<or> mkdir_fault h (filepath_Clean (np_target_path req)) = None"
      and "mount_fault h (filepath_Clean (filepath_Join (stateDir d) (np_volume_id req)))
             (filepath_Clean (np_target_path req)) = None"
  shows "\<exists>h' ls. NodePublishVolume d req h = (Inr NodePublishVolumeResponse, h', ls)
           \<and> mounts h'
               = \<lparr>m_source = resolve h (filepath_Clean
                                          (filepath_Join (stateDir d) (np_volume_id req))),
                  m_target = filepath_Clean (np_target_path req),
                  m_flags = (if np_readonly req then MS_BIND OR MS_RDONLY else MS_BIND)\<rparr>
                 # mounts h
           \<and> exists_dir h' (np_target_path req)
           \<and> mkdir_fault h' = mkdir_fault h \<and> mount_fault h' = mount_fault h
           \<and> umount_fault h' = umount_fault h"
proof -
  let ?dir = "filepath_Join (stateDir d) (np_volume_id req)"
  let ?tgt = "np_target_path req"
  let ?flags = "if np_readonly req then MS_BIND OR MS_RDONLY else MS_BIND"
  from assms(1) have "?dir \<noteq> []"
    by (rule filepath_Join_nonempty)
  from os_MkdirAll_succeeds [OF this assms(4)]
  obtain h1 where mk1: "os_MkdirAll ?dir h = (None, h1)"
    by blast
  note h1 = os_MkdirAll_ok [OF mk1]
  from assms(5) h1 have "exists_dir h1 ?tgt \<or> mkdir_fault h1 (filepath_Clean ?tgt) = None"
    using exists_dir_mono [of h1 h ?tgt] by auto
  from os_MkdirAll_succeeds [OF assms(2) this]
  obtain h2 where mk2: "os_MkdirAll ?tgt h1 = (None, h2)"
    by blast
  note h2 = os_MkdirAll_ok [OF mk2]
  from h1 h2 have "mounts h2 = mounts h1" and "dirs h1 \<subseteq> dirs h2" and "exists_dir h1 ?dir"
    by simp_all
  then have "exists_dir h2 ?dir"
    by (rule exists_dir_mono)
  with h2 have both: "exists_dir h2 ?dir \<and> exists_dir h2 ?tgt"
    by simp
  from h1 h2 have same: "mounts h2 = mounts h"
    by simp
  from h1 h2 assms(6)
  have nofault: "mount_fault h2 (filepath_Clean ?dir) (filepath_Clean ?tgt) = None"
    by simp
  let ?e = "\<lparr>m_source = resolve h (filepath_Clean ?dir), m_target = filepath_Clean ?tgt,
             m_flags = ?flags\<rparr>"
  from both nofault bind_flag [of "np_readonly req"] resolve_same_mounts [OF same]
  have mnt: "syscall_Mount ?dir ?tgt [] ?flags [] h2 = (None, h2\<lparr>mounts := ?e # mounts h2\<rparr>)"
    by (simp add: syscall_Mount_def Let_def)
  from assms(1-3) mk1 mk2 mnt
  have "\<exists>ls. NodePublishVolume d req h
          = (Inr NodePublishVolumeResponse, h2\<lparr>mounts := ?e # mounts h2\<rparr>, ls)"
    by (simp add: NodePublishVolume_def Let_def)
  moreover from same have "mounts (h2\<lparr>mounts := ?e # mounts h2\<rparr>) = ?e # mounts h"
    by simp
  moreover from assms(2) have "exists_dir (h2\<lparr>mounts := ?e # mounts h2\<rparr>) ?tgt"
    by (rule exists_dir_mount_point [where m = ?e and ms = "mounts h2"]) simp_all
  moreover from h1 h2 have "mkdir_fault (h2\<lparr>mounts := ?e # mounts h2\<rparr>) = mkdir_fault h"
    and "mount_fault (h2\<lparr>mounts := ?e # mounts h2\<rparr>) = mount_fault h"
    and "umount_fault (h2\<lparr>mounts := ?e # mounts h2\<rparr>) = umount_fault h"
    by simp_all
  ultimately show ?thesis
    by blast
qed

lemma publish_pvc1_pushes:
  assumes "mkdir_fault h = (\<lambda>p. None)" and "mount_fault h = (\<lambda>s t. None)"
      and "covering h ''/var/lib/demo-csi/volumes/pvc-1'' = None"
  shows "fst (NodePublishVolume demo_driver publish_pvc1 h) = Inr NodePublishVolumeResponse
       \<and> mounts (host_after (NodePublishVolume demo_driver publish_pvc1) h)
           = pvc1_binding # mounts h
       \<and> exists_dir (host_after (NodePublishVolume demo_driver publish_pvc1) h) ''/pods/x/vol''
       \<and> mkdir_fault (host_after (NodePublishVolume demo_driver publish_pvc1) h) = (\<lambda>p. None)
       \<and> mount_fault (host_after (NodePublishVolume demo_driver publish_pvc1) h)
           = (\<lambda>s t. None)
       \<and> umount_fault (host_after (NodePublishVolume demo_driver publish_pvc1) h)
           = umount_fault h"
  using NodePublishVolume_pushes [of publish_pvc1 h demo_driver] assms
  by (auto simp: host_after_def publish_pvc1_def demo_volumeDir clean_volumeDir clean_target
        pvc1_binding_def MS_BIND_def resolve_def)

text \<open>
  C1. On the fresh host, publishing volume \<open>pvc-1\<close> at \<open>/pods/x/vol\<close> twice with the same
  request succeeds both times, and the mount table then holds two bindings at the
  target, one stacked on the other, both of the volume's backing directory: not exactly
  one. A single unpublish afterwards removes the upper one and leaves the target bound.
\<close>

theorem NodePublishVolume_twice_stacks:
  "fst (NodePublishVolume demo_driver publish_pvc1 fresh_host) = Inr NodePublishVolumeResponse
   \<and> fst (NodePublishVolume demo_driver publish_pvc1
            (host_after (NodePublishVolume demo_driver publish_pvc1) fresh_host))
       = Inr NodePublishVolumeResponse
   \<and> bindings_at ''/pods/x/vol''
        (host_after (NodePublishVolume demo_driver publish_pvc1)
           (host_after (NodePublishVolume demo_driver publish_pvc1) fresh_host))
       = [pvc1_binding, pvc1_binding]
   \<and> bindings_at ''/pods/x/vol''
        (host_after (NodeUnpublishVolume demo_driver unpublish_pvc1)
           (host_after (NodePublishVolume demo_driver publish_pvc1)
              (host_after (NodePublishVolume demo_driver publish_pvc1) fresh_host)))
       = [pvc1_binding]"
proof -
  let ?pub = "host_after (NodePublishVolume demo_driver publish_pvc1)"
  have f0: "mkdir_fault fresh_host = (\<lambda>p. None)" "mount_fault fresh_host = (\<lambda>s t. None)"
    "covering fresh_host ''/var/lib/demo-csi/volumes/pvc-1'' = None"
    by (simp_all add: fresh_host_def covering_def)
  note one = publish_pvc1_pushes [OF f0]
  from one have m1: "mounts (?pub fresh_host) = [pvc1_binding]"
    by (simp add: fresh_host_def)
  from one have f1: "mkdir_fault (?pub fresh_host) = (\<lambda>p. None)"
    "mount_fault (?pub fresh_host) = (\<lambda>s t. None)"
    by simp_all
  have c1: "covering (?pub fresh_host) ''/var/lib/demo-csi/volumes/pvc-1'' = None"
    by (simp add: covering_def m1 pvc1_binding_def within_def)
  note two = publish_pvc1_pushes [OF f1 c1]
  from two m1 have m2: "mounts (?pub (?pub fresh_host)) = [pvc1_binding, pvc1_binding]"
    by simp
  then have b2:
    "bindings_at ''/pods/x/vol'' (?pub (?pub fresh_host)) = [pvc1_binding, pvc1_binding]"
    by (simp add: bindings_at_def clean_target pvc1_binding_def)
  have u1: "umount_fault (?pub fresh_host) = umount_fault fresh_host"
    using one by blast
  have u2: "umount_fault (?pub (?pub fresh_host)) = umount_fault (?pub fresh_host)"
    using two by blast
  have u: "umount_fault (?pub (?pub fresh_host)) ''/pods/x/vol'' = None"
    unfolding u2 u1 by (simp add: fresh_host_def)
  have ex: "exists_dir (?pub (?pub fresh_host)) ''/pods/x/vol''"
    using two by blast
  have "syscall_Unmount ''/pods/x/vol'' 0 (?pub (?pub fresh_host))
          = (None, (?pub (?pub fresh_host))\<lparr>mounts := [pvc1_binding]\<rparr>)"
    by (simp add: syscall_Unmount_def Let_def clean_target ex u m2 pvc1_binding_def)
  then have "bindings_at ''/pods/x/vol''
               (host_after (NodeUnpublishVolume demo_driver unpublish_pvc1)
                  (?pub (?pub fresh_host)))
             = [pvc1_binding]"
    by (simp add: host_after_def NodeUnpublishVolume_def unpublish_pvc1_def Let_def
          bindings_at_def clean_target pvc1_binding_def)
  with one two b2 show ?thesis
    by simp
qed

text \<open>
  What \<open>NodeUnpublishVolume\<close> does for every request and host: \<open>InvalidArgument\<close>
  exactly when the volume id or the target path is empty; success, with the host
  untouched, when the target exists, is not the root, has no binding and the host raises
  no fault; \<open>Internal\<close> for every unmount error other than \<open>EINVAL\<close>; success when the
  unmount returns no error or \<open>EINVAL\<close>.
\<close>

lemma NodeUnpublishVolume_outcomes:
  "((\<exists>msg as. fst (NodeUnpublishVolume d req h) = Inl (Status InvalidArgument msg as))
      = (nu_volume_id req = [] \<or> nu_target_path req = []))
   \<and> (nu_volume_id req \<noteq> [] \<longrightarrow> nu_target_path req \<noteq> [] \<longrightarrow>
        exists_dir h (nu_target_path req) \<longrightarrow>
        filepath_Clean (nu_target_path req) \<noteq> ''/'' \<longrightarrow>
        bindings_at (nu_target_path req) h = [] \<longrightarrow>
        umount_fault h (filepath_Clean (nu_target_path req)) = None \<longrightarrow>
        fst (NodeUnpublishVolume d req h) = Inr NodeUnpublishVolumeResponse
        \<and> fst (snd (NodeUnpublishVolume d req h)) = h)
   \<and> (nu_volume_id req \<noteq> [] \<longrightarrow> nu_target_path req \<noteq> [] \<longrightarrow>
        fst (syscall_Unmount (nu_target_path req) 0 h) = Some e \<longrightarrow> e \<noteq> EINVAL \<longrightarrow>
        (\<exists>msg as. fst (NodeUnpublishVolume d req h) = Inl (Status Internal msg as)))
   \<and> (nu_volume_id req \<noteq> [] \<longrightarrow> nu_target_path req \<noteq> [] \<longrightarrow>
        fst (syscall_Unmount (nu_target_path req) 0 h) \<in> {None, Some EINVAL} \<longrightarrow>
        fst (NodeUnpublishVolume d req h) = Inr NodeUnpublishVolumeResponse)"
  by (auto simp: NodeUnpublishVolume_def Let_def status_Error_def status_Errorf_def
                 syscall_Unmount_not_mounted
           split: prod.splits option.splits)

lemma NodeUnpublishVolume_idle:
  "exists_dir idle_host ''/pods/x/vol'' \<and> bindings_at ''/pods/x/vol'' idle_host = []
   \<and> fst (NodeUnpublishVolume demo_driver unpublish_pvc1 idle_host)
       = Inr NodeUnpublishVolumeResponse
   \<and> fst (NodeUnpublishVolume demo_driver unpublish_pvc1
            (idle_host\<lparr>umount_fault := (\<lambda>t. Some EPERM)\<rparr>))
       = Inl (Status Internal ''unmount %q failed: %v'' [S ''/pods/x/vol'', E EPERM])"
  by (simp add: idle_host_def lookup_defs fresh_host_def NodeUnpublishVolume_def
        status_Errorf_def syscall_Unmount_def unpublish_pvc1_def clean_target bindings_at_def
        Let_def)

text \<open>
  C5. On the fresh host the target \<open>/pods/x/vol\<close> was never published: it is not
  mounted, and it does not exist. \<open>NodeUnpublishVolume\<close> for it, with a volume id and a
  target path, does not succeed: the unmount answers \<open>ENOENT\<close>, which is not the
  \<open>EINVAL\<close> the handler lets pass, and the call fails with \<open>Internal\<close>.
\<close>

theorem NodeUnpublishVolume_missing_target:
  "nu_volume_id unpublish_pvc1 \<noteq> [] \<and> nu_target_path unpublish_pvc1 \<noteq> []
   \<and> mounts fresh_host = []
   \<and> bindings_at (nu_target_path unpublish_pvc1) fresh_host = []
   \<and> \<not> exists_dir fresh_host (nu_target_path unpublish_pvc1)
   \<and> fst (NodeUnpublishVolume demo_driver unpublish_pvc1 fresh_host)
       = Inl (Status Internal ''unmount %q failed: %v'' [S ''/pods/x/vol'', E ENOENT])"
  by (simp add: NodeUnpublishVolume_def unpublish_pvc1_def fresh_host_def syscall_Unmount_def
        lookup_defs clean_target bindings_at_def status_Errorf_def Let_def)

end
